theory Spec2Isabelle
  imports Complex_Main
begin

section \<open>PyWO core: geometry value types, window geometry and the event dispatcher\<close>

text \<open>
  A shallow embedding of \<^verbatim>\<open>src/core.py\<close>. The file is Python 2: \<^verbatim>\<open>/\<close> on two
  integers is floor division and \<^verbatim>\<open>%\<close> takes the sign of the divisor, which is what
  \<open>div\<close> and \<open>mod\<close> on \<open>int\<close> do. Python integers are unbounded, so they are \<open>int\<close>.
  Gravity fractions and positions are Python numbers that may be integers or floats
  (\<^verbatim>\<open>1.0/2\<close>, \<^verbatim>\<open>x - width * gravity.x\<close>); they are modelled as exact rationals, so
  the rounding of float arithmetic is not part of the model.
  Calls to the X server are inputs of the model: the raw geometry, the frame extents,
  the size hints and the window manager quirk flags are arguments of the functions
  that read them in the source.
\<close>

subsection \<open>Python errors\<close>

datatype py_error = UnboundLocalError | KeyError | RuntimeError

subsection \<open>Gravity (lines 28-74)\<close>

text \<open>The fields \<^verbatim>\<open>x\<close>, \<^verbatim>\<open>y\<close> of a Gravity are \<open>grav_x\<close>, \<open>grav_y\<close>.\<close>

record gravity =
  grav_x :: rat
  grav_y :: rat
  is_middle :: bool

definition Gravity :: "rat \<Rightarrow> rat \<Rightarrow> gravity" where
  "Gravity x y = \<lparr>grav_x = x, grav_y = y, is_middle = ((x = 1 / 2) \<and> (y = 1 / 2))\<rparr>"

definition is_top :: "gravity \<Rightarrow> bool" where
  "is_top g = (grav_y g < 1 / 2 \<or> is_middle g)"

definition is_bottom :: "gravity \<Rightarrow> bool" where
  "is_bottom g = (grav_y g > 1 / 2 \<or> is_middle g)"

definition is_left :: "gravity \<Rightarrow> bool" where
  "is_left g = (grav_x g < 1 / 2 \<or> is_middle g)"

definition is_right :: "gravity \<Rightarrow> bool" where
  "is_right g = (grav_x g > 1 / 2 \<or> is_middle g)"

text \<open>
  \<^verbatim>\<open>invert\<close> assigns the local \<^verbatim>\<open>y\<close> only when \<^verbatim>\<open>vertical\<close> holds and the local
  \<^verbatim>\<open>x\<close> only when \<^verbatim>\<open>horizontal\<close> holds; there is no other assignment. The locals
  are therefore optional values, and reading an unassigned one in
  \<^verbatim>\<open>Gravity(x, y)\<close> raises UnboundLocalError.
\<close>

definition invert :: "gravity \<Rightarrow> bool \<Rightarrow> bool \<Rightarrow> py_error + gravity" where
  "invert self vertical horizontal =
     (let y = (if vertical then Some (1 - grav_y self) else None);
          x = (if horizontal then Some (1 - grav_x self) else None)
      in case x of
           None \<Rightarrow> Inl UnboundLocalError
         | Some xv \<Rightarrow>
             (case y of
                None \<Rightarrow> Inl UnboundLocalError
              | Some yv \<Rightarrow> Inr (Gravity xv yv)))"

subsection \<open>Geometry (lines 119-162) and Borders (lines 165-187)\<close>

text \<open>
  The fields \<^verbatim>\<open>x\<close>, \<^verbatim>\<open>y\<close> of a Geometry are \<open>geo_x\<close>, \<open>geo_y\<close>. The constructor is
  modelled on integer arguments, which is what its callers in this file pass; on an
  integer \<^verbatim>\<open>int(v)\<close> is the identity.
\<close>

record geometry =
  geo_x :: rat
  geo_y :: rat
  width :: int
  height :: int

definition DEFAULT_GRAVITY :: gravity where
  "DEFAULT_GRAVITY = Gravity 0 0"

definition Geometry :: "int \<Rightarrow> int \<Rightarrow> int \<Rightarrow> int \<Rightarrow> gravity \<Rightarrow> geometry" where
  "Geometry x y w h g =
     \<lparr>geo_x = of_int x - of_int w * grav_x g,
      geo_y = of_int y - of_int h * grav_y g,
      width = w, height = h\<rparr>"

definition x2 :: "geometry \<Rightarrow> rat" where
  "x2 g = geo_x g + of_int (width g)"

definition y2 :: "geometry \<Rightarrow> rat" where
  "y2 g = geo_y g + of_int (height g)"

definition set_position :: "geometry \<Rightarrow> rat \<Rightarrow> rat \<Rightarrow> gravity \<Rightarrow> geometry" where
  "set_position self x y g =
     self\<lparr>geo_x := x - of_int (width self) * grav_x g,
          geo_y := y - of_int (height self) * grav_y g\<rparr>"

text \<open>
  Frame extents as \<^verbatim>\<open>__borders\<close> returns them, in the order left, right, top, bottom.
\<close>

record borders =
  left :: int
  right :: int
  top_b :: int
  bottom :: int

definition horizontal :: "borders \<Rightarrow> int" where
  "horizontal b = left b + right b"

definition vertical :: "borders \<Rightarrow> int" where
  "vertical b = top_b b + bottom b"

subsection \<open>Window.geometry (lines 561-578)\<close>

text \<open>
  The raw geometry is the tuple \<^verbatim>\<open>__geometry\<close> returns, the borders are what
  \<^verbatim>\<open>__borders\<close> returns and \<open>adjust_geometry\<close> is the flag \<^verbatim>\<open>__check\<close> computed
  from the window manager's name.
\<close>

type_synonym raw_geometry = "int \<times> int \<times> int \<times> int"

definition window_geometry :: "bool \<Rightarrow> raw_geometry \<Rightarrow> borders \<Rightarrow> geometry" where
  "window_geometry adjust_geometry raw b =
     (case raw of (x, y, w, h) \<Rightarrow>
        let x' = (if adjust_geometry then x - left b else x);
            y' = (if adjust_geometry then y - top_b b else y)
        in Geometry x' y' (w + left b + right b) (h + top_b b + bottom b) DEFAULT_GRAVITY)"

subsection \<open>Window.move_resize (lines 580-631)\<close>

text \<open>
  The size hints are the fields of the record \<^verbatim>\<open>get_wm_normal_hints\<close> returns that
  the source reads, or \<open>None\<close> when the window has none. Every field is an integer,
  and the source tests a field for presence by its truth value: zero is absent. The
  record itself is an object without a truth value of its own, so \<^verbatim>\<open>if hints\<close> holds
  exactly when there are hints.
\<close>

record size_hints =
  min_width :: int
  min_height :: int
  max_width :: int
  max_height :: int
  width_inc :: int
  height_inc :: int
  base_width :: int
  base_height :: int
  win_gravity :: int

text \<open>
  Modelled from the spec: \<^verbatim>\<open>X.StaticGravity\<close> is a constant of python-xlib, not of
  this repository; the spec only says that the hints carry a flag for static-gravity
  applications. The X protocol numbers it 10, and no theorem depends on the number.
\<close>

definition StaticGravity :: int where
  "StaticGravity = 10"

text \<open>The request handed to \<^verbatim>\<open>self._win.configure\<close> (line 631).\<close>

record configure =
  cfg_x :: rat
  cfg_y :: rat
  cfg_width :: int
  cfg_height :: int

text \<open>Lines 589-591: the requested size without the borders.\<close>

definition content_size :: "borders \<Rightarrow> geometry \<Rightarrow> int \<times> int" where
  "content_size b geo =
     (width geo - (left b + right b), height geo - (top_b b + bottom b))"

text \<open>Line 595: \<^verbatim>\<open>hints and hints.win_gravity == X.StaticGravity\<close>.\<close>

definition is_static :: "size_hints option \<Rightarrow> bool" where
  "is_static hints =
     (case hints of None \<Rightarrow> False | Some hs \<Rightarrow> win_gravity hs = StaticGravity)"

text \<open>Lines 595-597.\<close>

definition static_gravity_fix ::
  "size_hints option \<Rightarrow> borders \<Rightarrow> rat \<times> rat \<Rightarrow> rat \<times> rat" where
  "static_gravity_fix hints b p =
     (case p of (x, y) \<Rightarrow>
        if is_static hints then (x + of_int (left b), y + of_int (top_b b)) else (x, y))"

text \<open>
  Lines 598-607. Every test is \<^verbatim>\<open>hints and hints.f\<close>, so without hints nothing
  changes. The four steps run in the order of the source: both maxima, then both minima.
\<close>

definition clamp_size :: "size_hints option \<Rightarrow> int \<times> int \<Rightarrow> int \<times> int" where
  "clamp_size hints s =
     (case s of (w, h) \<Rightarrow>
        (case hints of
           None \<Rightarrow> (w, h)
         | Some hs \<Rightarrow>
             let w1 = (if max_width hs \<noteq> 0 then min w (max_width hs) else w);
                 h1 = (if max_height hs \<noteq> 0 then min h (max_height hs) else h);
                 w2 = (if min_width hs \<noteq> 0 then max w1 (min_width hs) else w1);
                 h2 = (if min_height hs \<noteq> 0 then max h1 (min_height hs) else h1)
             in (w2, h2)))"

text \<open>Lines 610-613 and 619-622: the base of the increments.\<close>

definition width_base :: "size_hints \<Rightarrow> raw_geometry \<Rightarrow> int" where
  "width_base hs current =
     (case current of (cx, cy, cw, ch) \<Rightarrow>
        if base_width hs \<noteq> 0 then base_width hs else cw mod width_inc hs)"

definition height_base :: "size_hints \<Rightarrow> raw_geometry \<Rightarrow> int" where
  "height_base hs current =
     (case current of (cx, cy, cw, ch) \<Rightarrow>
        if base_height hs \<noteq> 0 then base_height hs else ch mod height_inc hs)"

text \<open>Lines 609-617, inside the test \<^verbatim>\<open>hints and hints.width_inc\<close>.\<close>

definition snap_width :: "size_hints \<Rightarrow> raw_geometry \<Rightarrow> int \<Rightarrow> int" where
  "snap_width hs current w =
     (let base = width_base hs current;
          w1 = ((w - base) div width_inc hs) * width_inc hs;
          w2 = w1 + base
      in if min_width hs \<noteq> 0 \<and> w2 < min_width hs then w2 + width_inc hs else w2)"

text \<open>
  Lines 618-626, inside the test \<^verbatim>\<open>hints and hints.height_inc\<close>. The last test of
  the source is \<^verbatim>\<open>hints.height_inc and height < hints.min_height\<close>: it reads
  \<^verbatim>\<open>height_inc\<close> where the width's branch reads \<^verbatim>\<open>min_width\<close>.
\<close>

definition snap_height :: "size_hints \<Rightarrow> raw_geometry \<Rightarrow> int \<Rightarrow> int" where
  "snap_height hs current h =
     (let base = height_base hs current;
          h1 = ((h - base) div height_inc hs) * height_inc hs;
          h2 = h1 + base
      in if height_inc hs \<noteq> 0 \<and> h2 < min_height hs then h2 + height_inc hs else h2)"

definition snap_size :: "size_hints option \<Rightarrow> raw_geometry \<Rightarrow> int \<times> int \<Rightarrow> int \<times> int" where
  "snap_size hints current s =
     (case s of (w, h) \<Rightarrow>
        (case hints of
           None \<Rightarrow> (w, h)
         | Some hs \<Rightarrow>
             (if width_inc hs \<noteq> 0 then snap_width hs current w else w,
              if height_inc hs \<noteq> 0 then snap_height hs current h else h)))"

text \<open>
  The whole method. \<open>b\<close> is what \<^verbatim>\<open>__borders\<close> returns, \<open>current\<close> what
  \<^verbatim>\<open>__geometry\<close> returns and \<open>hints\<close> what \<^verbatim>\<open>get_wm_normal_hints\<close> returns; the
  result is the request sent to the X server.
\<close>

definition move_resize ::
  "borders \<Rightarrow> raw_geometry \<Rightarrow> size_hints option \<Rightarrow> geometry \<Rightarrow> gravity \<Rightarrow> configure" where
  "move_resize b current hints geo on_resize =
     (let geometry_size = content_size b geo;
          (x, y) = static_gravity_fix hints b (geo_x geo, geo_y geo);
          (w, h) = snap_size hints current (clamp_size hints geometry_size);
          (x', y') =
            (if (w, h) \<noteq> geometry_size
             then (x + of_int (fst geometry_size - w) * grav_x on_resize,
                   y + of_int (snd geometry_size - h) * grav_y on_resize)
             else (x, y))
      in \<lparr>cfg_x = x', cfg_y = y', cfg_width = w, cfg_height = h\<rparr>)"

subsection \<open>EventDispatcher (lines 190-268)\<close>

text \<open>
  \<^verbatim>\<open>self.__handlers\<close> is a dictionary from window ids to dictionaries from event
  types to handlers: a map of maps. A handler is an object of the caller with a
  \<^verbatim>\<open>mask\<close> (the field \<open>mask_h\<close>) and a collection of \<^verbatim>\<open>types\<close> that the source
  iterates; \<open>ident\<close> stands for the identity of the object, so that two handlers with
  the same mask and types are still two handlers. An event is read through
  \<^verbatim>\<open>event.window.id\<close> and \<^verbatim>\<open>event.type\<close> only.

  The dispatcher is a thread that other threads call \<^verbatim>\<open>register\<close> and
  \<^verbatim>\<open>unregister\<close> on. The model is the dictionary together with the state of the thread;
  an execution is a sequence of steps, each a call of \<^verbatim>\<open>register\<close> or \<^verbatim>\<open>unregister\<close>
  or a step of the loop of \<^verbatim>\<open>run\<close>, a method being one step. \<^verbatim>\<open>unregister\<close> and
  \<^verbatim>\<open>__dispatch\<close> use the dictionary only and are functions of it. Logging has no effect
  on the dictionary or on the result and is left out.
\<close>

type_synonym win_id = int
type_synonym event_type = int

record handler =
  ident :: nat
  mask_h :: int
  types :: "event_type list"

record event =
  ev_window :: win_id
  ev_type :: event_type

type_synonym win_handlers = "event_type \<rightharpoonup> handler"
type_synonym handlers = "win_id \<rightharpoonup> win_handlers"

text \<open>Lines 233-234 and 256-257: the set of the masks of a window's handlers.\<close>

definition masks :: "win_handlers \<Rightarrow> int set" where
  "masks m = mask_h ` ran m"

text \<open>Lines 228-229: the loop over \<^verbatim>\<open>handler.types\<close>.\<close>

fun register_types :: "win_handlers \<Rightarrow> handler \<Rightarrow> event_type list \<Rightarrow> win_handlers" where
  "register_types m hdl [] = m"
| "register_types m hdl (t # ts) = register_types (m(t \<mapsto> hdl)) hdl ts"

text \<open>
  Modelled from the library documentation: \<^verbatim>\<open>threading.Thread\<close> is the Python standard
  library, not this repository. A thread object is created not started; \<^verbatim>\<open>isAlive()\<close>
  holds from the moment \<^verbatim>\<open>start()\<close> returns until \<^verbatim>\<open>run()\<close> ends; \<^verbatim>\<open>start()\<close> "must be
  called at most once per thread object" and raises RuntimeError when it is called again.
\<close>

datatype thread_state = Fresh | Alive | Finished

definition isAlive :: "thread_state \<Rightarrow> bool" where
  "isAlive t = (t = Alive)"

definition start :: "thread_state \<Rightarrow> py_error + thread_state" where
  "start t = (case t of Fresh \<Rightarrow> Inr Alive | Alive \<Rightarrow> Inl RuntimeError | Finished \<Rightarrow> Inl RuntimeError)"

text \<open>The dispatcher object: \<^verbatim>\<open>self.__handlers\<close> and the thread it is.\<close>

record dispatcher =
  d_handlers :: handlers
  d_thread :: thread_state

text \<open>
  \<^verbatim>\<open>register\<close>: a window without an entry gets the empty dictionary first (lines
  226-227) and the loop stores the handler under each of its types (lines 228-229).
  Then lines 231-232 start the thread when it is not alive; when \<^verbatim>\<open>start()\<close> raises, the
  dictionary is already written and nothing is returned. Otherwise the set of masks is
  returned (lines 233-234). The result is the dispatcher after the call, and the error
  raised or the value returned.
\<close>

definition register ::
  "dispatcher \<Rightarrow> win_id \<Rightarrow> handler \<Rightarrow> dispatcher \<times> (py_error + int set)" where
  "register d w hdl =
     (let m0 = (case d_handlers d w of None \<Rightarrow> Map.empty | Some m \<Rightarrow> m);
          m1 = register_types m0 hdl (types hdl);
          d1 = d\<lparr>d_handlers := (d_handlers d)(w \<mapsto> m1)\<rparr>
      in if isAlive (d_thread d1) then (d1, Inr (masks m1))
         else (case start (d_thread d1) of
                 Inl e \<Rightarrow> (d1, Inl e)
               | Inr t \<Rightarrow> (d1\<lparr>d_thread := t\<rparr>, Inr (masks m1))))"

text \<open>Lines 248-250: the loop over \<^verbatim>\<open>handler.types\<close>, deleting the types that are there.\<close>

fun unregister_types :: "win_handlers \<Rightarrow> event_type list \<Rightarrow> win_handlers" where
  "unregister_types m [] = m"
| "unregister_types m (t # ts) =
     unregister_types (if t \<in> dom m then m(t := None) else m) ts"

text \<open>
  \<^verbatim>\<open>unregister\<close>: the handler is \<open>None\<close> for "all handlers", and \<^verbatim>\<open>not handler\<close>
  (line 242) holds for \<open>None\<close> only, a handler object being true. Lines 242-250 change the
  dictionary only under the test \<^verbatim>\<open>window.id in self.__handlers\<close>; line 251 then reads
  \<^verbatim>\<open>self.__handlers[window.id]\<close> without that test, which raises KeyError for a
  window without an entry. The empty list returned at line 254 is the empty set here.
\<close>

definition unregister ::
  "handlers \<Rightarrow> win_id \<Rightarrow> handler option \<Rightarrow> py_error + (handlers \<times> int set)" where
  "unregister hs w hdl =
     (let hs1 =
        (case hdl of
           None \<Rightarrow> (case hs w of None \<Rightarrow> hs | Some m \<Rightarrow> hs(w \<mapsto> Map.empty))
         | Some h \<Rightarrow>
             (case hs w of None \<Rightarrow> hs | Some m \<Rightarrow> hs(w \<mapsto> unregister_types m (types h))))
      in case hs1 w of
           None \<Rightarrow> Inl KeyError
         | Some m \<Rightarrow>
             if dom m = {} then Inr (hs1(w := None), {}) else Inr (hs1, masks m))"

text \<open>
  \<^verbatim>\<open>__dispatch\<close>: the outcome is the error logged for an unknown window, the silent
  return for a type without handler, or the call \<^verbatim>\<open>handle_event(event)\<close> of one handler.
\<close>

datatype outcome = NoHandlerForWindow win_id | Skipped | Handled handler event

definition dispatch :: "handlers \<Rightarrow> event \<Rightarrow> outcome" where
  "dispatch hs ev =
     (case hs (ev_window ev) of
        None \<Rightarrow> NoHandlerForWindow (ev_window ev)
      | Some wh \<Rightarrow>
          (case wh (ev_type ev) of
             None \<Rightarrow> Skipped
           | Some h \<Rightarrow> Handled h ev))"

text \<open>
  The loop of \<^verbatim>\<open>run\<close> (lines 215-219), as the two steps of the running thread. The test
  of line 215 ends \<^verbatim>\<open>run\<close>, and with it the thread, when the dictionary is empty. The
  body sleeps and then dispatches the pending events one by one, each against the
  dictionary as it is then; a thread that is not running dispatches nothing.
\<close>

definition loop_test :: "dispatcher \<Rightarrow> dispatcher" where
  "loop_test d =
     (if d_thread d = Alive \<and> dom (d_handlers d) = {} then d\<lparr>d_thread := Finished\<rparr> else d)"

definition poll :: "dispatcher \<Rightarrow> event list \<Rightarrow> outcome list" where
  "poll d pending =
     (if d_thread d = Alive then map (dispatch (d_handlers d)) pending else [])"

text \<open>
  Executions: an operation that raises leaves the dispatcher as the source left it,
  and the execution goes on with it (the caller may catch the error).
\<close>

datatype dispatcher_op =
  Register win_id handler | Unregister win_id "handler option" | LoopTest

fun apply_op :: "dispatcher \<Rightarrow> dispatcher_op \<Rightarrow> dispatcher" where
  "apply_op d (Register w hdl) = fst (register d w hdl)"
| "apply_op d (Unregister w hdl) =
     (case unregister (d_handlers d) w hdl of
        Inl e \<Rightarrow> d
      | Inr (hs', ms) \<Rightarrow> d\<lparr>d_handlers := hs'\<rparr>)"
| "apply_op d LoopTest = loop_test d"

fun apply_ops :: "dispatcher \<Rightarrow> dispatcher_op list \<Rightarrow> dispatcher" where
  "apply_ops d [] = d"
| "apply_ops d (x # xs) = apply_ops (apply_op d x) xs"

text \<open>The dispatcher as \<^verbatim>\<open>__init__\<close> leaves it (lines 202-205).\<close>

definition new_dispatcher :: dispatcher where
  "new_dispatcher = \<lparr>d_handlers = Map.empty, d_thread = Fresh\<rparr>"

text \<open>
  In the words of the spec: the handlers registered for a window, and for a pair of
  window and event type.
\<close>

definition registered_for :: "handlers \<Rightarrow> win_id \<Rightarrow> event_type \<Rightarrow> handler set" where
  "registered_for hs w t = {h. \<exists>m. hs w = Some m \<and> m t = Some h}"

definition registered_handlers :: "handlers \<Rightarrow> win_id \<Rightarrow> handler set" where
  "registered_handlers hs w = (\<Union>t. registered_for hs w t)"

section \<open>Theorems\<close>

subsection \<open>Window geometry\<close>

text \<open>
  C4. The geometry of a window has width \<open>w + left + right\<close> and height
  \<open>h + top + bottom\<close>; its position is \<open>(x - left, y - top)\<close> when the window manager
  needs the adjustment and \<open>(x, y)\<close> otherwise. Raw geometry \<open>(100, 100, 200, 150)\<close>
  with borders left 2, right 2, top 20, bottom 2 and no adjustment gives
  \<open>(100, 100, 204, 172)\<close>, and with all borders zero and no adjustment the result is
  the raw geometry.
\<close>

theorem window_geometry_effective:
  "window_geometry adj (x, y, w, h) \<lparr>left = l, right = r, top_b = t, bottom = b\<rparr> =
     \<lparr>geo_x = of_int (if adj then x - l else x),
      geo_y = of_int (if adj then y - t else y),
      width = w + l + r, height = h + t + b\<rparr>
   \<and> window_geometry False (100, 100, 200, 150)
        \<lparr>left = 2, right = 2, top_b = 20, bottom = 2\<rparr> =
      \<lparr>geo_x = 100, geo_y = 100, width = 204, height = 172\<rparr>
   \<and> window_geometry False (x, y, w, h) \<lparr>left = 0, right = 0, top_b = 0, bottom = 0\<rparr> =
      \<lparr>geo_x = of_int x, geo_y = of_int y, width = w, height = h\<rparr>"
  by (simp add: window_geometry_def Geometry_def DEFAULT_GRAVITY_def Gravity_def)

subsection \<open>Gravity.invert\<close>

text \<open>
  C10. \<^verbatim>\<open>invert\<close> is to replace each selected coordinate \<open>c\<close> by \<open>1 - c\<close> and to
  keep each unselected one, without raising. The code does so only when both axes are
  selected: with one axis (or none) the local of the other axis was never assigned and
  \<^verbatim>\<open>Gravity(x, y)\<close> raises UnboundLocalError.
\<close>

theorem invert_single_axis_raises:
  "invert g True False = Inl UnboundLocalError
   \<and> invert g False True = Inl UnboundLocalError
   \<and> invert g False False = Inl UnboundLocalError
   \<and> invert g True True = Inr (Gravity (1 - grav_x g) (1 - grav_y g))"
  by (simp add: invert_def)

subsection \<open>Window.move_resize: the result, step by step\<close>

lemma floor_mult_le:
  fixes k :: int
  assumes "0 < k"
  shows "k * (a div k) \<le> a"
proof -
  have "k * (a div k) + a mod k = a" by (rule mult_div_mod_eq)
  moreover have "0 \<le> a mod k" using assms by (rule pos_mod_sign)
  ultimately show ?thesis by linarith
qed

lemma floor_greatest:
  fixes k :: int
  assumes "0 < k" and "k * i \<le> a"
  shows "i \<le> a div k"
proof -
  have "(k * i) div k \<le> a div k" using assms(2) assms(1) by (rule zdiv_mono1)
  then show ?thesis using assms(1) by simp
qed

lemma snap_floor:
  fixes k :: int
  assumes "0 < k"
  shows "base + k * ((w - base) div k) \<le> w \<and> (\<forall>i. base + k * i \<le> w \<longrightarrow> i \<le> (w - base) div k)"
proof (intro conjI allI impI)
  show "base + k * ((w - base) div k) \<le> w"
    using floor_mult_le [OF assms, of "w - base"] by linarith
next
  fix i assume "base + k * i \<le> w"
  then have "k * i \<le> w - base" by linarith
  then show "i \<le> (w - base) div k" using assms by (simp add: floor_greatest)
qed

lemma move_resize_size:
  "cfg_width (move_resize b current hints geo a) =
     fst (snap_size hints current (clamp_size hints (content_size b geo)))"
  "cfg_height (move_resize b current hints geo a) =
     snd (snap_size hints current (clamp_size hints (content_size b geo)))"
  by (simp_all add: move_resize_def Let_def split: prod.splits)

lemma move_resize_position:
  "cfg_x (move_resize b current hints geo a) =
     fst (static_gravity_fix hints b (geo_x geo, geo_y geo)) +
     of_int (fst (content_size b geo) - cfg_width (move_resize b current hints geo a)) * grav_x a"
  "cfg_y (move_resize b current hints geo a) =
     snd (static_gravity_fix hints b (geo_x geo, geo_y geo)) +
     of_int (snd (content_size b geo) - cfg_height (move_resize b current hints geo a)) * grav_y a"
proof -
  obtain w0 h0 where c: "content_size b geo = (w0, h0)"
    by (cases "content_size b geo")
  obtain px py where p: "static_gravity_fix hints b (geo_x geo, geo_y geo) = (px, py)"
    by (cases "static_gravity_fix hints b (geo_x geo, geo_y geo)")
  obtain w h where s: "snap_size hints current (clamp_size hints (w0, h0)) = (w, h)"
    by (cases "snap_size hints current (clamp_size hints (w0, h0))")
  show "cfg_x (move_resize b current hints geo a) =
     fst (static_gravity_fix hints b (geo_x geo, geo_y geo)) +
     of_int (fst (content_size b geo) - cfg_width (move_resize b current hints geo a)) * grav_x a"
    by (simp add: move_resize_def Let_def c p s)
  show "cfg_y (move_resize b current hints geo a) =
     snd (static_gravity_fix hints b (geo_x geo, geo_y geo)) +
     of_int (snd (content_size b geo) - cfg_height (move_resize b current hints geo a)) * grav_y a"
    by (simp add: move_resize_def Let_def c p s)
qed

lemma snap_size_width:
  "width_inc hs \<noteq> 0 \<Longrightarrow> fst (snap_size (Some hs) current (w, h)) = snap_width hs current w"
  "width_inc hs = 0 \<Longrightarrow> fst (snap_size (Some hs) current (w, h)) = w"
  by (simp_all add: snap_size_def)

lemma snap_size_height:
  "height_inc hs \<noteq> 0 \<Longrightarrow> snd (snap_size (Some hs) current (w, h)) = snap_height hs current h"
  "height_inc hs = 0 \<Longrightarrow> snd (snap_size (Some hs) current (w, h)) = h"
  by (simp_all add: snap_size_def)

lemma snap_width_eq:
  "snap_width hs current w =
     (let base = width_base hs current;
          s = base + width_inc hs * ((w - base) div width_inc hs)
      in if min_width hs \<noteq> 0 \<and> s < min_width hs then s + width_inc hs else s)"
  by (simp add: snap_width_def Let_def mult.commute add.commute)

lemma snap_height_eq:
  assumes "height_inc hs \<noteq> 0"
    and "min_height hs \<noteq> 0 \<or>
         0 \<le> height_base hs current + height_inc hs * ((h - height_base hs current) div height_inc hs)"
  shows "snap_height hs current h =
     (let base = height_base hs current;
          s = base + height_inc hs * ((h - base) div height_inc hs)
      in if min_height hs \<noteq> 0 \<and> s < min_height hs then s + height_inc hs else s)"
  using assms by (auto simp add: snap_height_def Let_def mult.commute add.commute)

subsection \<open>Window.move_resize: size increments\<close>

text \<open>
  With a negative increment the floor division rounds the other way and the snapped
  width is above the width it started from: a request for content width 10 with
  \<^verbatim>\<open>width_inc = -3\<close> is answered with width 12.
\<close>

theorem move_resize_negative_increment:
  "cfg_width (move_resize \<lparr>left = 0, right = 0, top_b = 0, bottom = 0\<rparr> (0, 0, 0, 0)
       (Some \<lparr>min_width = 0, min_height = 0, max_width = 0, max_height = 0,
          width_inc = - 3, height_inc = 0, base_width = 0, base_height = 0, win_gravity = 0\<rparr>)
       (Geometry 0 0 10 10 DEFAULT_GRAVITY) (Gravity 0 0)) = 12
   \<and> fst (clamp_size
       (Some \<lparr>min_width = 0, min_height = 0, max_width = 0, max_height = 0,
          width_inc = - 3, height_inc = 0, base_width = 0, base_height = 0, win_gravity = 0\<rparr>)
       (content_size \<lparr>left = 0, right = 0, top_b = 0, bottom = 0\<rparr>
          (Geometry 0 0 10 10 DEFAULT_GRAVITY))) = 10
   \<and> width_base \<lparr>min_width = 0, min_height = 0, max_width = 0, max_height = 0,
          width_inc = - 3, height_inc = 0, base_width = 0, base_height = 0, win_gravity = 0\<rparr>
         (0, 0, 0, 0) = 0
   \<and> \<not> (\<exists>j. (12::int) = 0 + (- 3) * j \<and> 0 + (- 3) * j \<le> (10::int))"
  by (simp add: move_resize_def content_size_def static_gravity_fix_def is_static_def
      clamp_size_def snap_size_def snap_width_def width_base_def Geometry_def
      DEFAULT_GRAVITY_def Gravity_def Let_def)

text \<open>
  The slip of line 625 at work: with \<^verbatim>\<open>height_inc = 7\<close>, \<^verbatim>\<open>base_height = 20\<close>, no
  minimum and content height 5 the snapped height is \<open>-1\<close>, and the test
  \<^verbatim>\<open>hints.height_inc and height < hints.min_height\<close> adds an increment, giving 6; the
  width, with the same numbers, stays at \<open>-1\<close>.
\<close>

lemma move_resize_height_slip:
  "move_resize \<lparr>left = 0, right = 0, top_b = 0, bottom = 0\<rparr> (0, 0, 0, 0)
       (Some \<lparr>min_width = 0, min_height = 0, max_width = 0, max_height = 0,
          width_inc = 7, height_inc = 7, base_width = 20, base_height = 20, win_gravity = 0\<rparr>)
       (Geometry 0 0 5 5 DEFAULT_GRAVITY) (Gravity 0 0) =
     \<lparr>cfg_x = 0, cfg_y = 0, cfg_width = - 1, cfg_height = 6\<rparr>"
  by (simp add: move_resize_def content_size_def static_gravity_fix_def is_static_def
      clamp_size_def snap_size_def snap_width_def snap_height_def width_base_def
      height_base_def Geometry_def DEFAULT_GRAVITY_def Gravity_def Let_def)

text \<open>
  C1 (amended). For hints with a positive \<^verbatim>\<open>width_inc\<close> \<open>k\<close>, the returned width is
  \<open>base + k * j\<close> for the largest \<open>j\<close> with \<open>base + k * j\<close> not above the width before
  the increments, where \<open>base\<close> is \<^verbatim>\<open>base_width\<close> if that is nonzero and the current
  width modulo \<open>k\<close> otherwise; one more \<open>k\<close> is added when \<^verbatim>\<open>min_width\<close> is present
  and the snapped width is below it; and \<open>(width - base) mod k = 0\<close>. The same holds
  for the height with a positive \<^verbatim>\<open>height_inc\<close>, provided \<^verbatim>\<open>min_height\<close> is present
  or the snapped height is not negative.
\<close>

theorem move_resize_increments:
  "(0 < width_inc hs \<longrightarrow>
      (let k = width_inc hs;
           w0 = fst (clamp_size (Some hs) (content_size b geo));
           base = width_base hs current;
           j = (w0 - base) div k;
           wr = cfg_width (move_resize b current (Some hs) geo anchor)
       in base + k * j \<le> w0 \<and> (\<forall>i. base + k * i \<le> w0 \<longrightarrow> i \<le> j) \<and>
          wr = (if min_width hs \<noteq> 0 \<and> base + k * j < min_width hs
                then base + k * j + k else base + k * j) \<and>
          (wr - base) mod k = 0))
   \<and> (0 < height_inc hs \<and>
       (min_height hs \<noteq> 0 \<or>
        0 \<le> height_base hs current + height_inc hs *
              ((snd (clamp_size (Some hs) (content_size b geo)) - height_base hs current)
                div height_inc hs)) \<longrightarrow>
      (let k = height_inc hs;
           h0 = snd (clamp_size (Some hs) (content_size b geo));
           base = height_base hs current;
           j = (h0 - base) div k;
           hr = cfg_height (move_resize b current (Some hs) geo anchor)
       in base + k * j \<le> h0 \<and> (\<forall>i. base + k * i \<le> h0 \<longrightarrow> i \<le> j) \<and>
          hr = (if min_height hs \<noteq> 0 \<and> base + k * j < min_height hs
                then base + k * j + k else base + k * j) \<and>
          (hr - base) mod k = 0))"
proof (intro conjI impI)
  assume k: "0 < width_inc hs"
  obtain w0 h0 where c: "clamp_size (Some hs) (content_size b geo) = (w0, h0)"
    by (cases "clamp_size (Some hs) (content_size b geo)")
  have wr: "cfg_width (move_resize b current (Some hs) geo anchor) = snap_width hs current w0"
    using k by (simp add: move_resize_size c snap_size_width)
  show "let k = width_inc hs;
           w0 = fst (clamp_size (Some hs) (content_size b geo));
           base = width_base hs current;
           j = (w0 - base) div k;
           wr = cfg_width (move_resize b current (Some hs) geo anchor)
       in base + k * j \<le> w0 \<and> (\<forall>i. base + k * i \<le> w0 \<longrightarrow> i \<le> j) \<and>
          wr = (if min_width hs \<noteq> 0 \<and> base + k * j < min_width hs
                then base + k * j + k else base + k * j) \<and>
          (wr - base) mod k = 0"
    unfolding Let_def wr c fst_conv
    using snap_floor [OF k, of "width_base hs current" w0]
    by (simp add: snap_width_eq Let_def)
next
  assume a: "0 < height_inc hs \<and>
       (min_height hs \<noteq> 0 \<or>
        0 \<le> height_base hs current + height_inc hs *
              ((snd (clamp_size (Some hs) (content_size b geo)) - height_base hs current)
                div height_inc hs))"
  then have k: "0 < height_inc hs" by simp
  obtain w0 h0 where c: "clamp_size (Some hs) (content_size b geo) = (w0, h0)"
    by (cases "clamp_size (Some hs) (content_size b geo)")
  have g: "min_height hs \<noteq> 0 \<or>
        0 \<le> height_base hs current + height_inc hs * ((h0 - height_base hs current) div height_inc hs)"
    using a by (simp add: c)
  have k0: "height_inc hs \<noteq> 0" using k by simp
  have hr: "cfg_height (move_resize b current (Some hs) geo anchor) = snap_height hs current h0"
    using k by (simp add: move_resize_size c snap_size_height)
  show "let k = height_inc hs;
           h0 = snd (clamp_size (Some hs) (content_size b geo));
           base = height_base hs current;
           j = (h0 - base) div k;
           hr = cfg_height (move_resize b current (Some hs) geo anchor)
       in base + k * j \<le> h0 \<and> (\<forall>i. base + k * i \<le> h0 \<longrightarrow> i \<le> j) \<and>
          hr = (if min_height hs \<noteq> 0 \<and> base + k * j < min_height hs
                then base + k * j + k else base + k * j) \<and>
          (hr - base) mod k = 0"
    unfolding Let_def hr c snd_conv
    using snap_floor [OF k, of "height_base hs current" h0]
    by (simp add: snap_height_eq [OF k0 g] Let_def)
qed

theorem move_resize_increments_witness:
  "0 < width_inc
        \<lparr>min_width = 100, min_height = 100, max_width = 0, max_height = 0,
          width_inc = 10, height_inc = 10, base_width = 4, base_height = 4, win_gravity = 0\<rparr>
   \<and> 0 < height_inc
        \<lparr>min_width = 100, min_height = 100, max_width = 0, max_height = 0,
          width_inc = 10, height_inc = 10, base_width = 4, base_height = 4, win_gravity = 0\<rparr>
   \<and> min_height
        \<lparr>min_width = 100, min_height = 100, max_width = 0, max_height = 0,
          width_inc = 10, height_inc = 10, base_width = 4, base_height = 4, win_gravity = 0\<rparr> \<noteq> 0
   \<and> cfg_width (move_resize \<lparr>left = 2, right = 2, top_b = 20, bottom = 2\<rparr> (0, 0, 64, 64)
        (Some \<lparr>min_width = 100, min_height = 100, max_width = 0, max_height = 0,
          width_inc = 10, height_inc = 10, base_width = 4, base_height = 4, win_gravity = 0\<rparr>)
        (Geometry 0 0 101 272 DEFAULT_GRAVITY) (Gravity 0 0)) = 104
   \<and> cfg_height (move_resize \<lparr>left = 2, right = 2, top_b = 20, bottom = 2\<rparr> (0, 0, 64, 64)
        (Some \<lparr>min_width = 100, min_height = 100, max_width = 0, max_height = 0,
          width_inc = 10, height_inc = 10, base_width = 4, base_height = 4, win_gravity = 0\<rparr>)
        (Geometry 0 0 101 272 DEFAULT_GRAVITY) (Gravity 0 0)) = 244"
  using move_resize_increments
    [where hs = "\<lparr>min_width = 100, min_height = 100, max_width = 0, max_height = 0,
          width_inc = 10, height_inc = 10, base_width = 4, base_height = 4, win_gravity = 0\<rparr>"
      and b = "\<lparr>left = 2, right = 2, top_b = 20, bottom = 2\<rparr>"
      and current = "(0, 0, 64, 64)" and geo = "Geometry 0 0 101 272 DEFAULT_GRAVITY"
      and anchor = "Gravity 0 0"]
  by (simp add: content_size_def clamp_size_def width_base_def height_base_def
      Geometry_def DEFAULT_GRAVITY_def Gravity_def Let_def)

subsection \<open>Window.move_resize: size bounds\<close>

text \<open>
  C2. The maximum is applied before the minimum on each axis, so when both are present
  and the minimum is above the maximum the minimum wins; and when both are present with
  the minimum not above the maximum and there is no increment hint, the returned width
  lies between \<^verbatim>\<open>min_width\<close> and \<^verbatim>\<open>max_width\<close>. The same holds for the height.
\<close>

theorem move_resize_bounds:
  "fst (clamp_size (Some hs) (w, h)) =
     (let w1 = (if max_width hs \<noteq> 0 then min w (max_width hs) else w)
      in if min_width hs \<noteq> 0 then max w1 (min_width hs) else w1)
   \<and> snd (clamp_size (Some hs) (w, h)) =
     (let h1 = (if max_height hs \<noteq> 0 then min h (max_height hs) else h)
      in if min_height hs \<noteq> 0 then max h1 (min_height hs) else h1)
   \<and> (max_width hs \<noteq> 0 \<and> min_width hs \<noteq> 0 \<and> max_width hs < min_width hs \<longrightarrow>
        fst (clamp_size (Some hs) (w, h)) = min_width hs)
   \<and> (max_height hs \<noteq> 0 \<and> min_height hs \<noteq> 0 \<and> max_height hs < min_height hs \<longrightarrow>
        snd (clamp_size (Some hs) (w, h)) = min_height hs)
   \<and> (max_width hs \<noteq> 0 \<and> min_width hs \<noteq> 0 \<and> width_inc hs = 0 \<longrightarrow>
        cfg_width (move_resize b current (Some hs) geo anchor) =
          max (min (fst (content_size b geo)) (max_width hs)) (min_width hs))
   \<and> (max_height hs \<noteq> 0 \<and> min_height hs \<noteq> 0 \<and> height_inc hs = 0 \<longrightarrow>
        cfg_height (move_resize b current (Some hs) geo anchor) =
          max (min (snd (content_size b geo)) (max_height hs)) (min_height hs))
   \<and> (max_width hs \<noteq> 0 \<and> min_width hs \<noteq> 0 \<and> min_width hs \<le> max_width hs \<and>
       width_inc hs = 0 \<longrightarrow>
        min_width hs \<le> cfg_width (move_resize b current (Some hs) geo anchor) \<and>
        cfg_width (move_resize b current (Some hs) geo anchor) \<le> max_width hs)
   \<and> (max_height hs \<noteq> 0 \<and> min_height hs \<noteq> 0 \<and> min_height hs \<le> max_height hs \<and>
       height_inc hs = 0 \<longrightarrow>
        min_height hs \<le> cfg_height (move_resize b current (Some hs) geo anchor) \<and>
        cfg_height (move_resize b current (Some hs) geo anchor) \<le> max_height hs)"
proof -
  obtain w0 h0 where c: "content_size b geo = (w0, h0)"
    by (cases "content_size b geo")
  have cw: "fst (clamp_size (Some hs) (w, h)) =
     (let w1 = (if max_width hs \<noteq> 0 then min w (max_width hs) else w)
      in if min_width hs \<noteq> 0 then max w1 (min_width hs) else w1)" for w h
    by (simp add: clamp_size_def Let_def)
  have ch: "snd (clamp_size (Some hs) (w, h)) =
     (let h1 = (if max_height hs \<noteq> 0 then min h (max_height hs) else h)
      in if min_height hs \<noteq> 0 then max h1 (min_height hs) else h1)" for w h
    by (simp add: clamp_size_def Let_def)
  have rw: "width_inc hs = 0 \<Longrightarrow>
      cfg_width (move_resize b current (Some hs) geo anchor) = fst (clamp_size (Some hs) (w0, h0))"
    by (cases "clamp_size (Some hs) (w0, h0)") (simp add: move_resize_size c snap_size_width)
  have rh: "height_inc hs = 0 \<Longrightarrow>
      cfg_height (move_resize b current (Some hs) geo anchor) = snd (clamp_size (Some hs) (w0, h0))"
    by (cases "clamp_size (Some hs) (w0, h0)") (simp add: move_resize_size c snap_size_height)
  show ?thesis
    by (auto simp add: cw ch rw rh c Let_def)
qed

theorem move_resize_bounds_witness:
  "min_width \<lparr>min_width = 300, min_height = 100, max_width = 100, max_height = 300,
        width_inc = 0, height_inc = 0, base_width = 0, base_height = 0, win_gravity = 0\<rparr> \<noteq> 0
   \<and> cfg_width (move_resize \<lparr>left = 2, right = 2, top_b = 20, bottom = 2\<rparr> (0, 0, 64, 64)
        (Some \<lparr>min_width = 300, min_height = 100, max_width = 100, max_height = 300,
           width_inc = 0, height_inc = 0, base_width = 0, base_height = 0, win_gravity = 0\<rparr>)
        (Geometry 0 0 204 522 DEFAULT_GRAVITY) (Gravity 0 0)) = 300
   \<and> cfg_height (move_resize \<lparr>left = 2, right = 2, top_b = 20, bottom = 2\<rparr> (0, 0, 64, 64)
        (Some \<lparr>min_width = 300, min_height = 100, max_width = 100, max_height = 300,
           width_inc = 0, height_inc = 0, base_width = 0, base_height = 0, win_gravity = 0\<rparr>)
        (Geometry 0 0 204 522 DEFAULT_GRAVITY) (Gravity 0 0)) = 300
   \<and> cfg_width (move_resize \<lparr>left = 2, right = 2, top_b = 20, bottom = 2\<rparr> (0, 0, 64, 64)
        (Some \<lparr>min_width = 100, min_height = 300, max_width = 300, max_height = 100,
           width_inc = 0, height_inc = 0, base_width = 0, base_height = 0, win_gravity = 0\<rparr>)
        (Geometry 0 0 54 222 DEFAULT_GRAVITY) (Gravity 0 0)) = 100
   \<and> cfg_height (move_resize \<lparr>left = 2, right = 2, top_b = 20, bottom = 2\<rparr> (0, 0, 64, 64)
        (Some \<lparr>min_width = 100, min_height = 300, max_width = 300, max_height = 100,
           width_inc = 0, height_inc = 0, base_width = 0, base_height = 0, win_gravity = 0\<rparr>)
        (Geometry 0 0 54 222 DEFAULT_GRAVITY) (Gravity 0 0)) = 300"
  using move_resize_bounds [where hs = "\<lparr>min_width = 300, min_height = 100, max_width = 100,
           max_height = 300, width_inc = 0, height_inc = 0, base_width = 0, base_height = 0,
           win_gravity = 0\<rparr>"
      and b = "\<lparr>left = 2, right = 2, top_b = 20, bottom = 2\<rparr>"
      and current = "(0, 0, 64, 64)" and geo = "Geometry 0 0 204 522 DEFAULT_GRAVITY"
      and anchor = "Gravity 0 0" and w = 200 and h = 500]
    move_resize_bounds [where hs = "\<lparr>min_width = 100, min_height = 300, max_width = 300,
           max_height = 100, width_inc = 0, height_inc = 0, base_width = 0, base_height = 0,
           win_gravity = 0\<rparr>"
      and b = "\<lparr>left = 2, right = 2, top_b = 20, bottom = 2\<rparr>"
      and current = "(0, 0, 64, 64)" and geo = "Geometry 0 0 54 222 DEFAULT_GRAVITY"
      and anchor = "Gravity 0 0" and w = 50 and h = 200]
  by (simp add: content_size_def Geometry_def DEFAULT_GRAVITY_def Gravity_def)

subsection \<open>Window.move_resize: the position\<close>

text \<open>
  With hints of static window gravity lines 595-597 add the left and top border to the
  position, so the position sent differs from the requested one although the size is
  the requested size.
\<close>

theorem move_resize_static_gravity_moves:
  "\<not> (cfg_width (move_resize \<lparr>left = 2, right = 2, top_b = 20, bottom = 2\<rparr> (100, 100, 200, 150)
          (Some \<lparr>min_width = 0, min_height = 0, max_width = 0, max_height = 0, width_inc = 0,
             height_inc = 0, base_width = 0, base_height = 0, win_gravity = StaticGravity\<rparr>)
          (Geometry 100 100 204 172 DEFAULT_GRAVITY) (Gravity 0 0)) = 200 \<and>
       cfg_height (move_resize \<lparr>left = 2, right = 2, top_b = 20, bottom = 2\<rparr> (100, 100, 200, 150)
          (Some \<lparr>min_width = 0, min_height = 0, max_width = 0, max_height = 0, width_inc = 0,
             height_inc = 0, base_width = 0, base_height = 0, win_gravity = StaticGravity\<rparr>)
          (Geometry 100 100 204 172 DEFAULT_GRAVITY) (Gravity 0 0)) = 150 \<and>
       content_size \<lparr>left = 2, right = 2, top_b = 20, bottom = 2\<rparr>
          (Geometry 100 100 204 172 DEFAULT_GRAVITY) = (200, 150) \<longrightarrow>
       cfg_x (move_resize \<lparr>left = 2, right = 2, top_b = 20, bottom = 2\<rparr> (100, 100, 200, 150)
          (Some \<lparr>min_width = 0, min_height = 0, max_width = 0, max_height = 0, width_inc = 0,
             height_inc = 0, base_width = 0, base_height = 0, win_gravity = StaticGravity\<rparr>)
          (Geometry 100 100 204 172 DEFAULT_GRAVITY) (Gravity 0 0)) =
         geo_x (Geometry 100 100 204 172 DEFAULT_GRAVITY) \<and>
       cfg_y (move_resize \<lparr>left = 2, right = 2, top_b = 20, bottom = 2\<rparr> (100, 100, 200, 150)
          (Some \<lparr>min_width = 0, min_height = 0, max_width = 0, max_height = 0, width_inc = 0,
             height_inc = 0, base_width = 0, base_height = 0, win_gravity = StaticGravity\<rparr>)
          (Geometry 100 100 204 172 DEFAULT_GRAVITY) (Gravity 0 0)) =
         geo_y (Geometry 100 100 204 172 DEFAULT_GRAVITY))"
  by (simp add: move_resize_def content_size_def static_gravity_fix_def is_static_def
      clamp_size_def snap_size_def Geometry_def DEFAULT_GRAVITY_def Gravity_def Let_def)

text \<open>
  C3 (amended). The position sent is the requested position, moved by the left and top
  border when the hints declare static window gravity, and shifted by
  \<open>(requested_width - final_width) * anchor.x\<close> and
  \<open>(requested_height - final_height) * anchor.y\<close>; when the final content size is the
  requested content size there is no shift.
\<close>

theorem move_resize_anchor:
  "(cfg_width (move_resize b current hints geo anchor) = fst (content_size b geo) \<and>
    cfg_height (move_resize b current hints geo anchor) = snd (content_size b geo) \<longrightarrow>
      cfg_x (move_resize b current hints geo anchor) =
        geo_x geo + (if is_static hints then of_int (left b) else 0) \<and>
      cfg_y (move_resize b current hints geo anchor) =
        geo_y geo + (if is_static hints then of_int (top_b b) else 0))
   \<and> cfg_x (move_resize b current hints geo anchor) =
        geo_x geo + (if is_static hints then of_int (left b) else 0) +
        of_int (fst (content_size b geo) - cfg_width (move_resize b current hints geo anchor)) *
          grav_x anchor
   \<and> cfg_y (move_resize b current hints geo anchor) =
        geo_y geo + (if is_static hints then of_int (top_b b) else 0) +
        of_int (snd (content_size b geo) - cfg_height (move_resize b current hints geo anchor)) *
          grav_y anchor"
proof -
  have px: "fst (static_gravity_fix hints b (geo_x geo, geo_y geo)) =
      geo_x geo + (if is_static hints then of_int (left b) else 0)"
    by (simp add: static_gravity_fix_def)
  have py: "snd (static_gravity_fix hints b (geo_x geo, geo_y geo)) =
      geo_y geo + (if is_static hints then of_int (top_b b) else 0)"
    by (simp add: static_gravity_fix_def)
  have x: "cfg_x (move_resize b current hints geo anchor) =
        geo_x geo + (if is_static hints then of_int (left b) else 0) +
        of_int (fst (content_size b geo) - cfg_width (move_resize b current hints geo anchor)) *
          grav_x anchor"
    using move_resize_position(1) [of b current hints geo anchor] by (simp only: px)
  have y: "cfg_y (move_resize b current hints geo anchor) =
        geo_y geo + (if is_static hints then of_int (top_b b) else 0) +
        of_int (snd (content_size b geo) - cfg_height (move_resize b current hints geo anchor)) *
          grav_y anchor"
    using move_resize_position(2) [of b current hints geo anchor] by (simp only: py)
  show ?thesis
  proof (intro conjI impI)
    assume e: "cfg_width (move_resize b current hints geo anchor) = fst (content_size b geo) \<and>
      cfg_height (move_resize b current hints geo anchor) = snd (content_size b geo)"
    show "cfg_x (move_resize b current hints geo anchor) =
        geo_x geo + (if is_static hints then of_int (left b) else 0)"
      using x e by simp
    show "cfg_y (move_resize b current hints geo anchor) =
        geo_y geo + (if is_static hints then of_int (top_b b) else 0)"
      using y e by simp
  next
    show "cfg_x (move_resize b current hints geo anchor) =
        geo_x geo + (if is_static hints then of_int (left b) else 0) +
        of_int (fst (content_size b geo) - cfg_width (move_resize b current hints geo anchor)) *
          grav_x anchor" by (rule x)
  next
    show "cfg_y (move_resize b current hints geo anchor) =
        geo_y geo + (if is_static hints then of_int (top_b b) else 0) +
        of_int (snd (content_size b geo) - cfg_height (move_resize b current hints geo anchor)) *
          grav_y anchor" by (rule y)
  qed
qed

theorem move_resize_anchor_witness:
  "cfg_width (move_resize \<lparr>left = 2, right = 2, top_b = 20, bottom = 2\<rparr> (100, 100, 200, 150)
      None (Geometry 100 100 204 172 DEFAULT_GRAVITY) (Gravity (1 / 2) 1)) = 200
   \<and> cfg_height (move_resize \<lparr>left = 2, right = 2, top_b = 20, bottom = 2\<rparr> (100, 100, 200, 150)
      None (Geometry 100 100 204 172 DEFAULT_GRAVITY) (Gravity (1 / 2) 1)) = 150
   \<and> cfg_x (move_resize \<lparr>left = 2, right = 2, top_b = 20, bottom = 2\<rparr> (100, 100, 200, 150)
      None (Geometry 100 100 204 172 DEFAULT_GRAVITY) (Gravity (1 / 2) 1)) = 100
   \<and> cfg_y (move_resize \<lparr>left = 2, right = 2, top_b = 20, bottom = 2\<rparr> (100, 100, 200, 150)
      None (Geometry 100 100 204 172 DEFAULT_GRAVITY) (Gravity (1 / 2) 1)) = 100"
  using move_resize_anchor [where b = "\<lparr>left = 2, right = 2, top_b = 20, bottom = 2\<rparr>"
      and current = "(100, 100, 200, 150)" and hints = None
      and geo = "Geometry 100 100 204 172 DEFAULT_GRAVITY" and anchor = "Gravity (1 / 2) 1"]
  by (simp add: move_resize_size content_size_def clamp_size_def snap_size_def is_static_def
      Geometry_def DEFAULT_GRAVITY_def Gravity_def)

subsection \<open>EventDispatcher: the dictionary after the loops\<close>

lemma register_types_apply:
  "register_types m hdl ts t = (if t \<in> set ts then Some hdl else m t)"
  by (induction ts arbitrary: m) auto

lemma unregister_types_apply:
  "unregister_types m ts t = (if t \<in> set ts then None else m t)"
  by (induction ts arbitrary: m) (auto simp: domIff)

lemma unregister_types_disjoint:
  assumes "set ts \<inter> dom m = {}"
  shows "unregister_types m ts = m"
proof (rule ext)
  fix t
  show "unregister_types m ts t = m t"
    using assms by (cases "m t") (auto simp: unregister_types_apply)
qed

lemma masks_registered:
  "hs w = Some m \<Longrightarrow> masks m = mask_h ` registered_handlers hs w"
  by (auto simp: masks_def registered_handlers_def registered_for_def ran_def)

lemma registered_none:
  "hs w = None \<Longrightarrow> registered_handlers hs w = {}"
  by (simp add: registered_handlers_def registered_for_def)

lemma register_handlers:
  "d_handlers (fst (register d w hdl)) =
     (d_handlers d)(w \<mapsto> register_types
        (case d_handlers d w of None \<Rightarrow> Map.empty | Some m \<Rightarrow> m) hdl (types hdl))"
  by (cases "d_thread d") (simp_all add: register_def Let_def isAlive_def start_def)

lemma register_thread:
  "d_thread (fst (register d w hdl)) = (if d_thread d = Fresh then Alive else d_thread d)"
  by (cases "d_thread d") (simp_all add: register_def Let_def isAlive_def start_def)

lemma register_result:
  "snd (register d w hdl) =
     (if d_thread d = Finished then Inl RuntimeError
      else Inr (mask_h ` registered_handlers (d_handlers (fst (register d w hdl))) w))"
proof -
  let ?m = "register_types (case d_handlers d w of None \<Rightarrow> Map.empty | Some m \<Rightarrow> m)
      hdl (types hdl)"
  have "masks ?m = mask_h ` registered_handlers (d_handlers (fst (register d w hdl))) w"
    by (rule masks_registered) (simp add: register_handlers)
  then show ?thesis
    by (cases "d_thread d") (simp_all add: register_def Let_def isAlive_def start_def)
qed

lemma unregister_masks:
  assumes "unregister hs w hdl = Inr (hs', ms)"
  shows "ms = mask_h ` registered_handlers hs' w"
proof -
  define hs1 where "hs1 =
        (case hdl of
           None \<Rightarrow> (case hs w of None \<Rightarrow> hs | Some m \<Rightarrow> hs(w \<mapsto> Map.empty))
         | Some h \<Rightarrow>
             (case hs w of None \<Rightarrow> hs | Some m \<Rightarrow> hs(w \<mapsto> unregister_types m (types h))))"
  have u: "unregister hs w hdl =
      (case hs1 w of
           None \<Rightarrow> Inl KeyError
         | Some m \<Rightarrow>
             if dom m = {} then Inr (hs1(w := None), {}) else Inr (hs1, masks m))"
    unfolding unregister_def hs1_def Let_def by (rule refl)
  show ?thesis
  proof (cases "hs1 w")
    case None
    then show ?thesis using assms u by simp
  next
    case (Some m)
    show ?thesis
    proof (cases "dom m = {}")
      case True
      then have "hs' = hs1(w := None)" and "ms = {}" using assms u Some by simp_all
      then show ?thesis by (simp add: registered_none)
    next
      case False
      then have "hs' = hs1" and "ms = masks m" using assms u Some by simp_all
      then show ?thesis using masks_registered [of hs1 w m] Some by simp
    qed
  qed
qed

text \<open>
  For a window with an entry \<^verbatim>\<open>unregister\<close> returns, and what it returns is the set of
  the masks of the handlers it leaves for the window.
\<close>

lemma unregister_returns_masks:
  assumes "hs w = Some m"
  shows "\<exists>hs'. unregister hs w ho = Inr (hs', mask_h ` registered_handlers hs' w)"
proof -
  have "\<exists>hs' ms. unregister hs w ho = Inr (hs', ms)"
    using assms by (cases ho) (simp_all add: unregister_def Let_def)
  then obtain hs' ms where u: "unregister hs w ho = Inr (hs', ms)" by blast
  then have "ms = mask_h ` registered_handlers hs' w" by (rule unregister_masks)
  then show ?thesis using u by blast
qed

text \<open>
  Line 251 reads the entry of the window without the test of lines 242 and 245: for a
  window without an entry \<^verbatim>\<open>unregister\<close> raises KeyError, whatever the handler.
\<close>

lemma unregister_unknown_window_raises:
  "hs w = None \<Longrightarrow> unregister hs w hdl = Inl KeyError"
  by (simp add: unregister_def split: option.splits)

lemma unregister_all:
  "hs w = Some m \<Longrightarrow> unregister hs w None = Inr (hs(w := None), {})"
  by (simp add: unregister_def)


lemma registered_for_single:
  "hs w = Some m \<Longrightarrow> m t = Some h \<Longrightarrow> registered_for hs w t = {h}"
  by (auto simp: registered_for_def)

lemma registered_for_unique:
  "h \<in> registered_for hs w t \<Longrightarrow> h' \<in> registered_for hs w t \<Longrightarrow> h = h'"
  by (auto simp: registered_for_def)

lemma dispatch_handled:
  "dispatch hs ev = Handled h ev' \<Longrightarrow>
     ev' = ev \<and> registered_for hs (ev_window ev) (ev_type ev) = {h}"
  by (auto simp: dispatch_def registered_for_def split: option.splits)

subsection \<open>EventDispatcher: the thread\<close>

text \<open>
  The first \<^verbatim>\<open>register\<close> starts the thread; the loop goes on while the dictionary has
  an entry and ends at its next test once the dictionary is empty; \<^verbatim>\<open>unregister\<close> does
  not touch the thread, so the end is seen at the next test and not before; and a
  running thread dispatches every pending event.
\<close>

lemma loop_test_thread:
  "d_thread d = Alive \<Longrightarrow>
     d_thread (loop_test d) = (if dom (d_handlers d) = {} then Finished else Alive)"
  by (simp add: loop_test_def)

lemma loop_test_handlers:
  "d_handlers (loop_test d) = d_handlers d"
  by (simp add: loop_test_def)

lemma unregister_keeps_thread:
  "d_thread (apply_op d (Unregister w ho)) = d_thread d"
  by (simp split: sum.splits prod.splits)

lemma poll_alive:
  "d_thread d = Alive \<Longrightarrow> poll d pending = map (dispatch (d_handlers d)) pending"
  by (simp add: poll_def)

subsection \<open>EventDispatcher: one handler per window and event type\<close>

text \<open>
  C5. After \<^verbatim>\<open>register(w, h1)\<close> and \<^verbatim>\<open>register(w, h2)\<close>, where both handlers declare
  the event type \<open>t\<close>, an event of type \<open>t\<close> for \<open>w\<close> is handed to \<open>h2\<close> and not to
  \<open>h1\<close>; and after any sequence of register and unregister calls a pair of window and
  event type has at most one handler, the one an event is dispatched to. Both hold in
  every state of the thread: \<^verbatim>\<open>register\<close> writes the dictionary before it can raise.
\<close>

theorem register_replaces_handler:
  "(t \<in> set (types h1) \<and> t \<in> set (types h2) \<longrightarrow>
      dispatch (d_handlers (fst (register (fst (register d w h1)) w h2)))
          \<lparr>ev_window = w, ev_type = t\<rparr> =
        Handled h2 \<lparr>ev_window = w, ev_type = t\<rparr> \<and>
      registered_for (d_handlers (fst (register (fst (register d w h1)) w h2))) w t = {h2} \<and>
      (h1 \<noteq> h2 \<longrightarrow>
         dispatch (d_handlers (fst (register (fst (register d w h1)) w h2)))
             \<lparr>ev_window = w, ev_type = t\<rparr> \<noteq>
           Handled h1 \<lparr>ev_window = w, ev_type = t\<rparr>))
   \<and> (\<forall>h h'. h \<in> registered_for (d_handlers (apply_ops d0 ops)) w' t' \<and>
              h' \<in> registered_for (d_handlers (apply_ops d0 ops)) w' t' \<longrightarrow> h = h')
   \<and> (\<forall>h ev'. dispatch (d_handlers (apply_ops d0 ops)) ev = Handled h ev' \<longrightarrow>
          ev' = ev \<and>
          registered_for (d_handlers (apply_ops d0 ops)) (ev_window ev) (ev_type ev) = {h})"
proof (intro conjI impI allI)
  assume a: "t \<in> set (types h1) \<and> t \<in> set (types h2)"
  let ?hs2 = "d_handlers (fst (register (fst (register d w h1)) w h2))"
  obtain m where m: "?hs2 w = Some m" and mt: "m t = Some h2"
    using a by (simp add: register_handlers register_types_apply)
  show d: "dispatch ?hs2 \<lparr>ev_window = w, ev_type = t\<rparr> = Handled h2 \<lparr>ev_window = w, ev_type = t\<rparr>"
    using m mt by (simp add: dispatch_def)
  show "registered_for ?hs2 w t = {h2}"
    using m mt by (rule registered_for_single)
  assume "h1 \<noteq> h2"
  then show "dispatch ?hs2 \<lparr>ev_window = w, ev_type = t\<rparr> \<noteq> Handled h1 \<lparr>ev_window = w, ev_type = t\<rparr>"
    by (simp add: d)
next
  fix h h'
  assume "h \<in> registered_for (d_handlers (apply_ops d0 ops)) w' t' \<and>
          h' \<in> registered_for (d_handlers (apply_ops d0 ops)) w' t'"
  then show "h = h'" by (auto intro: registered_for_unique)
next
  fix h ev'
  assume "dispatch (d_handlers (apply_ops d0 ops)) ev = Handled h ev'"
  then show "ev' = ev"
    and "registered_for (d_handlers (apply_ops d0 ops)) (ev_window ev) (ev_type ev) = {h}"
    by (auto dest: dispatch_handled)
qed

theorem register_replaces_handler_witness:
  "8 \<in> set (types \<lparr>ident = 1, mask_h = 4, types = [7, 8]\<rparr>)
   \<and> 8 \<in> set (types \<lparr>ident = 2, mask_h = 16, types = [8]\<rparr>)
   \<and> dispatch (d_handlers (fst (register (fst (register new_dispatcher 5
          \<lparr>ident = 1, mask_h = 4, types = [7, 8]\<rparr>)) 5 \<lparr>ident = 2, mask_h = 16, types = [8]\<rparr>)))
        \<lparr>ev_window = 5, ev_type = 8\<rparr> =
       Handled \<lparr>ident = 2, mask_h = 16, types = [8]\<rparr> \<lparr>ev_window = 5, ev_type = 8\<rparr>
   \<and> dispatch (d_handlers (apply_ops new_dispatcher
         [Register 5 \<lparr>ident = 1, mask_h = 4, types = [7, 8]\<rparr>,
          Register 5 \<lparr>ident = 2, mask_h = 16, types = [8]\<rparr>])) \<lparr>ev_window = 5, ev_type = 8\<rparr> =
       Handled \<lparr>ident = 2, mask_h = 16, types = [8]\<rparr> \<lparr>ev_window = 5, ev_type = 8\<rparr>
   \<and> registered_for (d_handlers (apply_ops new_dispatcher
         [Register 5 \<lparr>ident = 1, mask_h = 4, types = [7, 8]\<rparr>,
          Register 5 \<lparr>ident = 2, mask_h = 16, types = [8]\<rparr>])) 5 8 =
       {\<lparr>ident = 2, mask_h = 16, types = [8]\<rparr>}"
  using register_replaces_handler [where t = 8
      and ?h1.0 = "\<lparr>ident = 1, mask_h = 4, types = [7, 8]\<rparr>"
      and ?h2.0 = "\<lparr>ident = 2, mask_h = 16, types = [8]\<rparr>"
      and d = new_dispatcher and w = 5 and ?d0.0 = new_dispatcher
      and ops = "[Register 5 \<lparr>ident = 1, mask_h = 4, types = [7, 8]\<rparr>,
          Register 5 \<lparr>ident = 2, mask_h = 16, types = [8]\<rparr>]"
      and ev = "\<lparr>ev_window = 5, ev_type = 8\<rparr>" and w' = 5 and t' = 8]
  by (simp add: register_handlers dispatch_def new_dispatcher_def)

subsection \<open>EventDispatcher: the returned masks\<close>

text \<open>
  While the thread has not ended \<^verbatim>\<open>register\<close> returns the set of the masks of all
  handlers registered for the window after the insertion. For a window without an
  entry, registering a handler for type \<open>a\<close> and then one for another type \<open>b\<close> returns
  both masks, and unregistering the first then returns the mask of the second.
\<close>

lemma register_returns_masks:
  "d_thread d \<noteq> Finished \<Longrightarrow>
     snd (register d w hdl) =
       Inr (mask_h ` registered_handlers (d_handlers (fst (register d w hdl))) w)"
  by (simp add: register_result)

lemma register_two_unregister_first:
  assumes "d_thread d \<noteq> Finished" and "d_handlers d w = None" and "a \<noteq> b"
    and "types h1 = [a]" and "types h2 = [b]"
  shows "snd (register (fst (register d w h1)) w h2) = Inr {mask_h h1, mask_h h2}"
    and "unregister (d_handlers (fst (register (fst (register d w h1)) w h2))) w (Some h1) =
          Inr ((d_handlers d)(w \<mapsto> [b \<mapsto> h2]), {mask_h h2})"
proof -
  let ?d2 = "fst (register (fst (register d w h1)) w h2)"
  have s2: "d_handlers ?d2 = (d_handlers d)(w \<mapsto> [a \<mapsto> h1, b \<mapsto> h2])"
    using assms by (simp add: register_handlers)
  have t1: "d_thread (fst (register d w h1)) \<noteq> Finished"
    using assms(1) by (simp add: register_thread)
  have r: "ran [a \<mapsto> h1, b \<mapsto> h2] = {h1, h2}"
    using assms(3) by (auto simp: ran_def)
  have "masks [a \<mapsto> h1, b \<mapsto> h2] = mask_h ` registered_handlers (d_handlers ?d2) w"
    by (rule masks_registered) (simp add: s2)
  then have "mask_h ` registered_handlers (d_handlers ?d2) w = {mask_h h1, mask_h h2}"
    using r by (simp add: masks_def)
  then show "snd (register (fst (register d w h1)) w h2) = Inr {mask_h h1, mask_h h2}"
    using t1 by (simp add: register_result)
  have u: "unregister_types [a \<mapsto> h1, b \<mapsto> h2] [a] = [b \<mapsto> h2]"
    using assms(3) by (auto simp: fun_eq_iff)
  show "unregister (d_handlers ?d2) w (Some h1) =
          Inr ((d_handlers d)(w \<mapsto> [b \<mapsto> h2]), {mask_h h2})"
    unfolding s2 using assms u by (simp add: unregister_def masks_def)
qed

text \<open>
  C6. \<^verbatim>\<open>register\<close> is to return the set of the masks of the window's handlers in every
  state. It does so exactly while the thread has not ended: lines 231-232 call \<^verbatim>\<open>start()\<close> on the
  ended thread, which raises RuntimeError after the dictionary is written and before
  the \<^verbatim>\<open>return\<close>. After \<^verbatim>\<open>register\<close>, \<^verbatim>\<open>unregister(w, None)\<close> and the end of the loop,
  registering the handler with mask 4 again raises where the set to return is \<open>{4}\<close>.
\<close>

theorem register_raises_after_thread_end:
  "snd (register d w hdl) =
     (if d_thread d = Finished then Inl RuntimeError
      else Inr (mask_h ` registered_handlers (d_handlers (fst (register d w hdl))) w))
   \<and> snd (register new_dispatcher 5 \<lparr>ident = 1, mask_h = 4, types = [7]\<rparr>) = Inr {4}
   \<and> apply_ops new_dispatcher
        [Register 5 \<lparr>ident = 1, mask_h = 4, types = [7]\<rparr>, Unregister 5 None, LoopTest] =
       \<lparr>d_handlers = Map.empty, d_thread = Finished\<rparr>
   \<and> snd (register
        (apply_ops new_dispatcher
           [Register 5 \<lparr>ident = 1, mask_h = 4, types = [7]\<rparr>, Unregister 5 None, LoopTest])
        5 \<lparr>ident = 1, mask_h = 4, types = [7]\<rparr>) = Inl RuntimeError
   \<and> mask_h ` registered_handlers
        (d_handlers (fst (register
           (apply_ops new_dispatcher
              [Register 5 \<lparr>ident = 1, mask_h = 4, types = [7]\<rparr>, Unregister 5 None, LoopTest])
           5 \<lparr>ident = 1, mask_h = 4, types = [7]\<rparr>))) 5 = {4}"
proof -
  let ?h1 = "\<lparr>ident = 1, mask_h = 4, types = [7]\<rparr>"
  let ?ended = "\<lparr>d_handlers = Map.empty, d_thread = Finished\<rparr>"
  have s: "apply_ops new_dispatcher [Register 5 ?h1, Unregister 5 None, LoopTest] = ?ended"
    by (simp add: new_dispatcher_def register_def isAlive_def start_def unregister_def
        loop_test_def Let_def)
  have r: "snd (register new_dispatcher 5 ?h1) = Inr {4}"
    by (simp add: new_dispatcher_def register_def isAlive_def start_def masks_def Let_def)
  have e: "snd (register ?ended 5 ?h1) = Inl RuntimeError"
    by (simp add: register_result)
  have "d_handlers (fst (register ?ended 5 ?h1)) 5 = Some [7 \<mapsto> ?h1]"
    by (simp add: register_handlers)
  then have "masks [7 \<mapsto> ?h1] =
      mask_h ` registered_handlers (d_handlers (fst (register ?ended 5 ?h1))) 5"
    by (rule masks_registered)
  then have m: "mask_h ` registered_handlers (d_handlers (fst (register ?ended 5 ?h1))) 5 = {4}"
    by (simp add: masks_def)
  show ?thesis unfolding s using register_result [of d w hdl] r e m by simp
qed

subsection \<open>EventDispatcher: the loop is not started again\<close>

text \<open>
  C9. The loop runs while the dictionary has an entry and ends at its next test once
  the dictionary is empty, and a later \<^verbatim>\<open>register\<close> is to start it again. It does not:
  on an ended thread \<^verbatim>\<open>start()\<close> raises RuntimeError, the thread stays ended and no
  pending event is dispatched, whatever the dictionary holds. In the execution below
  the loop survives \<^verbatim>\<open>unregister(5, None)\<close> until its next test, ends there, and the
  handler registered afterwards is in the dictionary but never receives its event.
\<close>

theorem dispatch_loop_not_restarted:
  "d_thread (fst (register \<lparr>d_handlers = hs, d_thread = Finished\<rparr> w hdl)) = Finished
   \<and> snd (register \<lparr>d_handlers = hs, d_thread = Finished\<rparr> w hdl) = Inl RuntimeError
   \<and> poll (fst (register \<lparr>d_handlers = hs, d_thread = Finished\<rparr> w hdl)) pending = []
   \<and> d_thread (apply_ops new_dispatcher
        [Register 5 \<lparr>ident = 1, mask_h = 4, types = [7]\<rparr>, LoopTest]) = Alive
   \<and> d_thread (apply_ops new_dispatcher
        [Register 5 \<lparr>ident = 1, mask_h = 4, types = [7]\<rparr>, LoopTest,
         Unregister 5 None]) = Alive
   \<and> d_thread (apply_ops new_dispatcher
        [Register 5 \<lparr>ident = 1, mask_h = 4, types = [7]\<rparr>, LoopTest,
         Unregister 5 None, LoopTest]) = Finished
   \<and> apply_ops new_dispatcher
        [Register 5 \<lparr>ident = 1, mask_h = 4, types = [7]\<rparr>, LoopTest,
         Unregister 5 None, LoopTest,
         Register 5 \<lparr>ident = 2, mask_h = 16, types = [8]\<rparr>] =
       \<lparr>d_handlers = [5 \<mapsto> [8 \<mapsto> \<lparr>ident = 2, mask_h = 16, types = [8]\<rparr>]],
          d_thread = Finished\<rparr>
   \<and> dispatch [5 \<mapsto> [8 \<mapsto> \<lparr>ident = 2, mask_h = 16, types = [8]\<rparr>]]
        \<lparr>ev_window = 5, ev_type = 8\<rparr> =
       Handled \<lparr>ident = 2, mask_h = 16, types = [8]\<rparr> \<lparr>ev_window = 5, ev_type = 8\<rparr>
   \<and> poll (apply_ops new_dispatcher
        [Register 5 \<lparr>ident = 1, mask_h = 4, types = [7]\<rparr>, LoopTest,
         Unregister 5 None, LoopTest,
         Register 5 \<lparr>ident = 2, mask_h = 16, types = [8]\<rparr>])
        [\<lparr>ev_window = 5, ev_type = 8\<rparr>] = []"
proof -
  let ?h1 = "\<lparr>ident = 1, mask_h = 4, types = [7]\<rparr>"
  let ?h2 = "\<lparr>ident = 2, mask_h = 16, types = [8]\<rparr>"
  let ?ended = "\<lparr>d_handlers = hs, d_thread = Finished\<rparr>"
  have g: "d_thread (fst (register ?ended w hdl)) = Finished"
    by (simp add: register_thread)
  have e: "snd (register ?ended w hdl) = Inl RuntimeError"
    by (simp add: register_result)
  have p: "poll (fst (register ?ended w hdl)) pending = []"
    using g by (simp add: poll_def)
  have s1: "apply_ops new_dispatcher [Register 5 ?h1, LoopTest] =
      \<lparr>d_handlers = [5 \<mapsto> [7 \<mapsto> ?h1]], d_thread = Alive\<rparr>"
    by (simp add: new_dispatcher_def register_def isAlive_def start_def loop_test_def Let_def)
  have s2: "apply_ops new_dispatcher [Register 5 ?h1, LoopTest, Unregister 5 None] =
      \<lparr>d_handlers = Map.empty, d_thread = Alive\<rparr>"
    by (simp add: new_dispatcher_def register_def isAlive_def start_def loop_test_def
        unregister_def Let_def)
  have s3: "apply_ops new_dispatcher [Register 5 ?h1, LoopTest, Unregister 5 None, LoopTest] =
      \<lparr>d_handlers = Map.empty, d_thread = Finished\<rparr>"
    by (simp add: new_dispatcher_def register_def isAlive_def start_def loop_test_def
        unregister_def Let_def)
  have s4: "apply_ops new_dispatcher
        [Register 5 ?h1, LoopTest, Unregister 5 None, LoopTest, Register 5 ?h2] =
       \<lparr>d_handlers = [5 \<mapsto> [8 \<mapsto> ?h2]], d_thread = Finished\<rparr>"
    by (simp add: new_dispatcher_def register_def isAlive_def start_def loop_test_def
        unregister_def Let_def)
  have d: "dispatch [5 \<mapsto> [8 \<mapsto> ?h2]] \<lparr>ev_window = 5, ev_type = 8\<rparr> =
       Handled ?h2 \<lparr>ev_window = 5, ev_type = 8\<rparr>"
    by (simp add: dispatch_def)
  show ?thesis unfolding s1 s2 s3 s4 using g e p d by (simp add: poll_def)
qed

subsection \<open>EventDispatcher: unregistering all handlers of a window\<close>

text \<open>
  C7. For a window with an entry, \<^verbatim>\<open>unregister(w, None)\<close> removes the entry of the
  window, leaves no handler for it and returns the empty set of masks; an event for
  that window is then reported for the unknown window and handed to no handler. An
  event for a known window whose type has no handler is skipped.
\<close>

theorem unregister_all_drops_window:
  "(hs w = Some m \<longrightarrow>
      unregister hs w None = Inr (hs(w := None), {}) \<and>
      registered_handlers (hs(w := None)) w = {} \<and>
      (\<forall>w'. w' \<noteq> w \<longrightarrow> (hs(w := None)) w' = hs w') \<and>
      (\<forall>t. dispatch (hs(w := None)) \<lparr>ev_window = w, ev_type = t\<rparr> = NoHandlerForWindow w))
   \<and> (hs w' = Some m' \<and> m' t = None \<longrightarrow>
        dispatch hs \<lparr>ev_window = w', ev_type = t\<rparr> = Skipped)"
  by (simp add: unregister_all registered_none dispatch_def)

theorem unregister_all_drops_window_witness:
  "unregister [5 \<mapsto> [7 \<mapsto> \<lparr>ident = 1, mask_h = 4, types = [7]\<rparr>]] 5 None = Inr (Map.empty, {})
   \<and> dispatch Map.empty \<lparr>ev_window = 5, ev_type = 7\<rparr> = NoHandlerForWindow 5
   \<and> dispatch [5 \<mapsto> [7 \<mapsto> \<lparr>ident = 1, mask_h = 4, types = [7]\<rparr>]] \<lparr>ev_window = 5, ev_type = 8\<rparr> =
       Skipped"
  using unregister_all_drops_window [where hs = "[5 \<mapsto> [7 \<mapsto> \<lparr>ident = 1, mask_h = 4, types = [7]\<rparr>]]"
      and w = 5 and m = "[7 \<mapsto> \<lparr>ident = 1, mask_h = 4, types = [7]\<rparr>]" and w' = 5
      and m' = "[7 \<mapsto> \<lparr>ident = 1, mask_h = 4, types = [7]\<rparr>]" and t = 8]
  by simp

subsection \<open>EventDispatcher: unregistering a handler that was never registered\<close>

text \<open>
  \<^verbatim>\<open>unregister\<close> deletes by event type, whoever registered the type: a handler that
  was never registered takes the entry of another handler away when it declares the
  same type.
\<close>

theorem unregister_removes_other_handler:
  "\<lparr>ident = 2, mask_h = 16, types = [7]\<rparr> \<notin>
     registered_handlers (d_handlers (fst (register new_dispatcher 5 \<lparr>ident = 1, mask_h = 4, types = [7]\<rparr>))) 5
   \<and> d_handlers (fst (register new_dispatcher 5 \<lparr>ident = 1, mask_h = 4, types = [7]\<rparr>)) = [5 \<mapsto> [7 \<mapsto> \<lparr>ident = 1, mask_h = 4, types = [7]\<rparr>]]
   \<and> unregister (d_handlers (fst (register new_dispatcher 5 \<lparr>ident = 1, mask_h = 4, types = [7]\<rparr>))) 5
       (Some \<lparr>ident = 2, mask_h = 16, types = [7]\<rparr>) = Inr (Map.empty, {})
   \<and> d_handlers (fst (register new_dispatcher 5 \<lparr>ident = 1, mask_h = 4, types = [7]\<rparr>)) \<noteq> Map.empty"
proof -
  have s: "d_handlers (fst (register new_dispatcher 5 \<lparr>ident = 1, mask_h = 4, types = [7]\<rparr>)) = [5 \<mapsto> [7 \<mapsto> \<lparr>ident = 1, mask_h = 4, types = [7]\<rparr>]]"
    by (simp add: register_handlers new_dispatcher_def)
  have n: "[5 \<mapsto> [7 \<mapsto> \<lparr>ident = 1, mask_h = 4, types = [7]\<rparr>]] \<noteq> (Map.empty :: handlers)"
    by simp
  have r: "\<lparr>ident = 2, mask_h = 16, types = [7]\<rparr> \<notin>
     registered_handlers [5 \<mapsto> [7 \<mapsto> \<lparr>ident = 1, mask_h = 4, types = [7]\<rparr>]] 5"
    by (auto simp: registered_handlers_def registered_for_def split: if_splits)
  have u: "unregister [5 \<mapsto> [7 \<mapsto> \<lparr>ident = 1, mask_h = 4, types = [7]\<rparr>]] 5
       (Some \<lparr>ident = 2, mask_h = 16, types = [7]\<rparr>) = Inr (Map.empty, {})"
    by (simp add: unregister_def)
  show ?thesis unfolding s using r u n by simp
qed

text \<open>
  C8 (amended). For a window with at least one handler, unregistering a handler none of
  whose event types has an entry for that window raises no error, leaves the dictionary
  as it is and returns the masks of the window's handlers.
\<close>

theorem unregister_unrelated_handler_noop:
  assumes "hs w = Some m" and "dom m \<noteq> {}" and "set (types h) \<inter> dom m = {}"
  shows "unregister hs w (Some h) = Inr (hs, mask_h ` registered_handlers hs w)"
proof -
  have "hs(w \<mapsto> m) = hs" using assms(1) by (rule map_upd_triv)
  then show ?thesis
    using assms by (simp add: unregister_def unregister_types_disjoint masks_registered [of hs w m])
qed

theorem unregister_unrelated_handler_noop_witness:
  "unregister [5 \<mapsto> [7 \<mapsto> \<lparr>ident = 1, mask_h = 4, types = [7]\<rparr>]] 5
       (Some \<lparr>ident = 2, mask_h = 16, types = [8]\<rparr>) =
     Inr ([5 \<mapsto> [7 \<mapsto> \<lparr>ident = 1, mask_h = 4, types = [7]\<rparr>]],
          mask_h ` registered_handlers [5 \<mapsto> [7 \<mapsto> \<lparr>ident = 1, mask_h = 4, types = [7]\<rparr>]] 5)"
  using unregister_unrelated_handler_noop
    [where hs = "[5 \<mapsto> [7 \<mapsto> \<lparr>ident = 1, mask_h = 4, types = [7]\<rparr>]]" and w = 5
      and m = "[7 \<mapsto> \<lparr>ident = 1, mask_h = 4, types = [7]\<rparr>]"
      and h = "\<lparr>ident = 2, mask_h = 16, types = [8]\<rparr>"]
  by simp

end
